theory Spec2Isabelle
  imports Main "HOL-Library.Word" "HOL-Library.Monad_Syntax"
begin

unbundle bit_operations_syntax

section \<open>Values, errors and storage rows\<close>

text \<open>
  The service of \<^verbatim>\<open>main.py\<close> is a set of route handlers over two tables
  (\<^verbatim>\<open>models.py\<close>) with request and response shapes from \<^verbatim>\<open>schemas.py\<close>.
  Python values that cross a dynamically typed boundary (a JSON body, an attribute read by
  \<^verbatim>\<open>from_attributes\<close>, a token payload) are values of \<open>pyval\<close>.
\<close>

datatype date = Date int int int

datatype pyval =
    PNone
  | PBool bool
  | PInt int
  | PStr string
  | PDate date
  | PList "pyval list"
  | PDict "(string \<times> pyval) list"

text \<open>Python truthiness, as used by \<^verbatim>\<open>if not user_email\<close>.\<close>

fun truthy :: "pyval \<Rightarrow> bool" where
  "truthy PNone = False"
| "truthy (PBool b) = b"
| "truthy (PInt i) = (i \<noteq> 0)"
| "truthy (PStr s) = (s \<noteq> [])"
| "truthy (PDate d) = True"
| "truthy (PList xs) = (xs \<noteq> [])"
| "truthy (PDict kvs) = (kvs \<noteq> [])"

text \<open>
  What a request can end with instead of its handler's return value:
  an \<^verbatim>\<open>HTTPException(status_code, detail)\<close> raised by the handler, the framework's
  rejection of a request body (422), its rejection of a return value that does not fit the
  route's \<^verbatim>\<open>response_model\<close> (an unhandled server error, 500), the two
  exceptions that \<^verbatim>\<open>update_avatar\<close> lets through, and any other exception that a
  dependency of a route raises and nothing catches.
\<close>

datatype error =
    HTTPException int string
  | RequestValidationError
  | ResponseValidationError
  | UploadError
  | KeyError string
  | UnhandledException string

fun status_code :: "error + 'a \<Rightarrow> int" where
  "status_code (Inr _) = 200"
| "status_code (Inl (HTTPException code _)) = code"
| "status_code (Inl RequestValidationError) = 422"
| "status_code (Inl ResponseValidationError) = 500"
| "status_code (Inl UploadError) = 500"
| "status_code (Inl (KeyError _)) = 500"
| "status_code (Inl (UnhandledException _)) = 500"

text \<open>
  \<^verbatim>\<open>models.User\<close> (imported into \<^verbatim>\<open>main.py\<close> under the name
  \<^verbatim>\<open>ContactModel\<close>). The nullable columns that some writer leaves unset are options;
  \<^verbatim>\<open>is_verified\<close> has the column default \<^verbatim>\<open>False\<close>.
\<close>

record models_User =
  user_id :: int
  user_email :: string
  hashed_password :: string
  is_verified :: bool
  verification_token :: "string option"
  avatar_url :: "string option"

text \<open>
  \<^verbatim>\<open>models.Contact\<close>. Every column but the primary key is nullable, and
  \<^verbatim>\<open>update_contact\<close> can store \<^verbatim>\<open>None\<close> in the string columns.
\<close>

record models_Contact =
  contact_id :: int
  first_name :: "string option"
  last_name :: "string option"
  email :: "string option"
  phone :: "string option"
  birthday :: "date option"
  additional_info :: "string option"
  owner_id :: "int option"

record db =
  users :: "models_User list"
  contacts :: "models_Contact list"

definition empty_db :: db where
  "empty_db = \<lparr>users = [], contacts = []\<rparr>"

text \<open>
  The integer primary key that storage assigns on insert: one more than the largest key in
  the table, 1 in an empty table.
\<close>

definition next_id :: "int list \<Rightarrow> int" where
  "next_id ids = fold max ids 0 + 1"

section \<open>Schemas\<close>

record schemas_UserCreate =
  uc_email :: string
  uc_password :: string

record schemas_ContactCreate =
  cc_first_name :: string
  cc_last_name :: string
  cc_email :: string
  cc_phone :: string
  cc_birthday :: date
  cc_additional_info :: string

text \<open>
  \<^verbatim>\<open>schemas.ContactUpdate\<close>: five \<^verbatim>\<open>Optional[str] = None\<close> fields. A field
  is \<open>None\<close> when the body did not set it, \<open>Some None\<close> when the body set it to
  \<^verbatim>\<open>null\<close>, \<open>Some (Some s)\<close> when the body set it to a string: the difference that
  \<^verbatim>\<open>dict(exclude_unset=True)\<close> observes.
\<close>

record schemas_ContactUpdate =
  cu_first_name :: "string option option"
  cu_last_name :: "string option option"
  cu_email :: "string option option"
  cu_phone :: "string option option"
  cu_additional_info :: "string option option"

text \<open>\<^verbatim>\<open>schemas.Contact\<close> (\<^verbatim>\<open>ContactSchema\<close> in \<^verbatim>\<open>main.py\<close>): all fields required.\<close>

record schemas_Contact =
  view_first_name :: string
  view_last_name :: string
  view_email :: string
  view_phone :: string
  view_birthday :: date
  view_additional_info :: string
  view_id :: int
  view_owner_id :: int

subsection \<open>Reading a body into \<^verbatim>\<open>ContactUpdate\<close>\<close>

text \<open>
  One \<^verbatim>\<open>Optional[str]\<close> field of a JSON body: absent is unset, \<^verbatim>\<open>null\<close> and a
  string are accepted, any other value is a validation error. Keys of the body that the
  schema does not declare are ignored.
\<close>

fun optional_str :: "pyval option \<Rightarrow> error + string option option" where
  "optional_str None = Inr None"
| "optional_str (Some PNone) = Inr (Some None)"
| "optional_str (Some (PStr s)) = Inr (Some (Some s))"
| "optional_str (Some _) = Inl RequestValidationError"

definition parse_ContactUpdate :: "(string \<rightharpoonup> pyval) \<Rightarrow> error + schemas_ContactUpdate" where
  "parse_ContactUpdate body =
     (case optional_str (body ''first_name'') of Inl e \<Rightarrow> Inl e | Inr fn \<Rightarrow>
     (case optional_str (body ''last_name'') of Inl e \<Rightarrow> Inl e | Inr ln \<Rightarrow>
     (case optional_str (body ''email'') of Inl e \<Rightarrow> Inl e | Inr em \<Rightarrow>
     (case optional_str (body ''phone'') of Inl e \<Rightarrow> Inl e | Inr ph \<Rightarrow>
     (case optional_str (body ''additional_info'') of Inl e \<Rightarrow> Inl e | Inr ai \<Rightarrow>
        Inr \<lparr>cu_first_name = fn, cu_last_name = ln, cu_email = em, cu_phone = ph,
             cu_additional_info = ai\<rparr>)))))"

text \<open>\<^verbatim>\<open>contact.dict(exclude_unset=True).items()\<close>: the set fields, in declaration order.\<close>

definition dict_exclude_unset :: "schemas_ContactUpdate \<Rightarrow> (string \<times> string option) list" where
  "dict_exclude_unset cu =
     (case cu_first_name cu of None \<Rightarrow> [] | Some v \<Rightarrow> [(''first_name'', v)]) @
     (case cu_last_name cu of None \<Rightarrow> [] | Some v \<Rightarrow> [(''last_name'', v)]) @
     (case cu_email cu of None \<Rightarrow> [] | Some v \<Rightarrow> [(''email'', v)]) @
     (case cu_phone cu of None \<Rightarrow> [] | Some v \<Rightarrow> [(''phone'', v)]) @
     (case cu_additional_info cu of None \<Rightarrow> [] | Some v \<Rightarrow> [(''additional_info'', v)])"

subsection \<open>Fitting a return value to \<^verbatim>\<open>response_model=ContactSchema\<close>\<close>

text \<open>
  With \<^verbatim>\<open>from_attributes = True\<close> the schema reads each of its fields as an attribute
  of the returned object. The attributes of the two kinds of row:
\<close>

definition getattr_User :: "models_User \<Rightarrow> string \<rightharpoonup> pyval" where
  "getattr_User u =
     [''id'' \<mapsto> PInt (user_id u),
      ''email'' \<mapsto> PStr (user_email u),
      ''hashed_password'' \<mapsto> PStr (hashed_password u),
      ''is_verified'' \<mapsto> PBool (is_verified u),
      ''verification_token'' \<mapsto> (case verification_token u of None \<Rightarrow> PNone | Some t \<Rightarrow> PStr t),
      ''avatar_url'' \<mapsto> (case avatar_url u of None \<Rightarrow> PNone | Some a \<Rightarrow> PStr a)]"

definition nullable_str :: "string option \<Rightarrow> pyval" where
  "nullable_str v = (case v of None \<Rightarrow> PNone | Some s \<Rightarrow> PStr s)"

definition getattr_Contact :: "models_Contact \<Rightarrow> string \<rightharpoonup> pyval" where
  "getattr_Contact c =
     [''id'' \<mapsto> PInt (contact_id c),
      ''first_name'' \<mapsto> nullable_str (first_name c),
      ''last_name'' \<mapsto> nullable_str (last_name c),
      ''email'' \<mapsto> nullable_str (email c),
      ''phone'' \<mapsto> nullable_str (phone c),
      ''birthday'' \<mapsto> (case birthday c of None \<Rightarrow> PNone | Some d \<Rightarrow> PDate d),
      ''additional_info'' \<mapsto> nullable_str (additional_info c),
      ''owner_id'' \<mapsto> (case owner_id c of None \<Rightarrow> PNone | Some i \<Rightarrow> PInt i)]"

text \<open>
  A required field of type \<^verbatim>\<open>str\<close>, \<^verbatim>\<open>int\<close> or \<^verbatim>\<open>date\<close>: a missing attribute and
  \<^verbatim>\<open>None\<close> are both rejected. The rows above only ever offer a field a value of its own
  Python type or \<^verbatim>\<open>None\<close>, so no coercion between types is modelled.
\<close>

fun required_str :: "pyval option \<Rightarrow> string option" where
  "required_str (Some (PStr s)) = Some s"
| "required_str _ = None"

fun required_int :: "pyval option \<Rightarrow> int option" where
  "required_int (Some (PInt i)) = Some i"
| "required_int _ = None"

fun required_date :: "pyval option \<Rightarrow> date option" where
  "required_date (Some (PDate d)) = Some d"
| "required_date _ = None"

definition validate_Contact :: "(string \<rightharpoonup> pyval) \<Rightarrow> schemas_Contact option" where
  "validate_Contact obj = do {
     fn \<leftarrow> required_str (obj ''first_name'');
     ln \<leftarrow> required_str (obj ''last_name'');
     em \<leftarrow> required_str (obj ''email'');
     ph \<leftarrow> required_str (obj ''phone'');
     bd \<leftarrow> required_date (obj ''birthday'');
     ai \<leftarrow> required_str (obj ''additional_info'');
     i \<leftarrow> required_int (obj ''id'');
     ow \<leftarrow> required_int (obj ''owner_id'');
     Some \<lparr>view_first_name = fn, view_last_name = ln, view_email = em, view_phone = ph,
           view_birthday = bd, view_additional_info = ai, view_id = i, view_owner_id = ow\<rparr>
   }"

definition response_model_Contact :: "(string \<rightharpoonup> pyval) \<Rightarrow> error + schemas_Contact" where
  "response_model_Contact obj =
     (case validate_Contact obj of None \<Rightarrow> Inl ResponseValidationError | Some v \<Rightarrow> Inr v)"

section \<open>Collaborators outside \<^verbatim>\<open>main.py\<close>\<close>

text \<open>
  \<^verbatim>\<open>utils.hash_password\<close>, \<^verbatim>\<open>utils.verify_password\<close>, \<^verbatim>\<open>auth.create_access_token\<close>,
  \<^verbatim>\<open>auth.verify_token\<close> and \<^verbatim>\<open>cloudinary.uploader.upload\<close> are called by the
  handlers and defined elsewhere. The handlers take them as parameters, bundled in one
  record; a call that raises returns \<open>Inl\<close>. Nothing is assumed about them.
\<close>

record services =
  hash_password :: "string \<Rightarrow> string"
  verify_password :: "string \<Rightarrow> string \<Rightarrow> bool"
  create_access_token :: "(string \<times> string) list \<Rightarrow> string"
  verify_token :: "string \<Rightarrow> error + (string \<rightharpoonup> pyval)"
  uploader_upload :: "string \<Rightarrow> string \<Rightarrow> error + (string \<rightharpoonup> string)"

subsection \<open>\<^verbatim>\<open>str(uuid4())\<close>\<close>

text \<open>
  The standard library's \<^verbatim>\<open>uuid4\<close> draws 16 random bytes, fixes the variant and version
  bits of the 128-bit integer, and \<^verbatim>\<open>str\<close> prints it as 32 lower-case hexadecimal digits
  in groups of 8, 4, 4, 4 and 12. The random bytes are the parameter \<open>rnd\<close>.
\<close>

definition uuid4 :: "128 word \<Rightarrow> 128 word" where
  "uuid4 rnd =
     (let i1 = rnd AND NOT (push_bit 48 0xc000);
          i2 = i1 OR push_bit 48 0x8000;
          i3 = i2 AND NOT (push_bit 64 0xf000)
      in i3 OR push_bit 76 4)"

definition hex_digit :: "nat \<Rightarrow> char" where
  "hex_digit n = (if n < 10 then char_of (48 + n) else char_of (87 + n))"

definition hex32 :: "128 word \<Rightarrow> string" where
  "hex32 w = map (\<lambda>i. hex_digit (unat (drop_bit (4 * (31 - i)) w AND 15))) [0..<32]"

definition str_uuid :: "128 word \<Rightarrow> string" where
  "str_uuid w =
     (let hex = hex32 w
      in take 8 hex @ ''-'' @ take 4 (drop 8 hex) @ ''-'' @ take 4 (drop 12 hex) @ ''-'' @
         take 4 (drop 16 hex) @ ''-'' @ drop 20 hex)"

section \<open>Route handlers\<close>

text \<open>
  Each handler takes the storage state and returns its response, and the new state when it
  commits. \<^verbatim>\<open>query(...).filter(...).first()\<close> is \<open>find\<close> over the table in storage
  order; a commit of a changed row is an \<^verbatim>\<open>UPDATE ... WHERE id = pk\<close>, a delete is a
  \<^verbatim>\<open>DELETE ... WHERE id = pk\<close>. A handler that returns a \<^verbatim>\<open>dict\<close> returns its items.
\<close>

type_synonym json_dict = "(string \<times> pyval) list"

text \<open>
  \<^verbatim>\<open>POST /register/\<close>, declared with \<^verbatim>\<open>response_model=ContactSchema\<close>. The call of
  \<^verbatim>\<open>send_verification_email\<close> prints a line and changes nothing.
\<close>

definition register ::
  "services \<Rightarrow> 128 word \<Rightarrow> schemas_UserCreate \<Rightarrow> db \<Rightarrow> (error + schemas_Contact) \<times> db" where
  "register sv rnd user db =
     (case find (\<lambda>u. user_email u = uc_email user) (users db) of
        Some existing_user \<Rightarrow>
          (Inl (HTTPException 409 ''User with this email already exists''), db)
      | None \<Rightarrow>
          (let hashed = hash_password sv (uc_password user);
               new_user = \<lparr>user_id = next_id (map user_id (users db)),
                           user_email = uc_email user,
                           hashed_password = hashed,
                           is_verified = False,
                           verification_token = Some (str_uuid (uuid4 rnd)),
                           avatar_url = None\<rparr>;
               db' = db\<lparr>users := users db @ [new_user]\<rparr>
           in (response_model_Contact (getattr_User new_user), db')))"

text \<open>\<^verbatim>\<open>GET /verify-email/\<close>. A \<^verbatim>\<open>NULL\<close> token equals no string.\<close>

definition verify_email :: "string \<Rightarrow> db \<Rightarrow> (error + json_dict) \<times> db" where
  "verify_email token db =
     (case find (\<lambda>u. verification_token u = Some token) (users db) of
        Some user \<Rightarrow>
          (Inr [(''msg'', PStr ''Email verified successfully'')],
           db\<lparr>users := map (\<lambda>u. if user_id u = user_id user
                                 then u\<lparr>is_verified := True, verification_token := None\<rparr>
                                 else u) (users db)\<rparr>)
      | None \<Rightarrow> (Inl (HTTPException 400 ''Invalid token''), db))"

text \<open>\<^verbatim>\<open>POST /token\<close>; the form carries the email as \<^verbatim>\<open>username\<close>.\<close>

record OAuth2PasswordRequestForm =
  username :: string
  password :: string

definition login :: "services \<Rightarrow> OAuth2PasswordRequestForm \<Rightarrow> db \<Rightarrow> error + json_dict" where
  "login sv form_data db =
     (case find (\<lambda>u. user_email u = username form_data) (users db) of
        None \<Rightarrow> Inl (HTTPException 401 ''Incorrect email or password'')
      | Some user \<Rightarrow>
          if \<not> verify_password sv (password form_data) (hashed_password user)
          then Inl (HTTPException 401 ''Incorrect email or password'')
          else if \<not> is_verified user
          then Inl (HTTPException 401 ''Email not verified'')
          else Inr [(''access_token'', PStr (create_access_token sv [(''sub'', user_email user)])),
                    (''token_type'', PStr ''bearer'')])"

definition get_current_user :: "services \<Rightarrow> string \<Rightarrow> db \<Rightarrow> error + models_User" where
  "get_current_user sv token db =
     (case verify_token sv token of
        Inl e \<Rightarrow> Inl e
      | Inr payload \<Rightarrow>
          (case payload ''sub'' of
             None \<Rightarrow> Inl (HTTPException 401 ''Invalid token'')
           | Some user_email' \<Rightarrow>
               if \<not> truthy user_email' then Inl (HTTPException 401 ''Invalid token'')
               else (case find (\<lambda>u. PStr (user_email u) = user_email') (users db) of
                       None \<Rightarrow> Inl (HTTPException 404 ''User not found'')
                     | Some user \<Rightarrow> Inr user)))"

text \<open>
  \<^verbatim>\<open>POST /contacts/\<close>: first the handler proper, given the resolved \<^verbatim>\<open>current_user\<close>.
  \<^verbatim>\<open>ContactCreate\<close> requires every field, so \<^verbatim>\<open>dict(exclude_unset=True)\<close> holds all
  six.
\<close>

definition create_contact ::
  "schemas_ContactCreate \<Rightarrow> models_User \<Rightarrow> db \<Rightarrow> (error + schemas_Contact) \<times> db" where
  "create_contact contact current_user db =
     (let db_contact = \<lparr>contact_id = next_id (map contact_id (contacts db)),
                        first_name = Some (cc_first_name contact),
                        last_name = Some (cc_last_name contact),
                        email = Some (cc_email contact),
                        phone = Some (cc_phone contact),
                        birthday = Some (cc_birthday contact),
                        additional_info = Some (cc_additional_info contact),
                        owner_id = Some (user_id current_user)\<rparr>;
          db' = db\<lparr>contacts := contacts db @ [db_contact]\<rparr>
      in (response_model_Contact (getattr_Contact db_contact), db'))"

text \<open>
  The route. Its decorator lists \<^verbatim>\<open>Depends(RateLimiter(times=5, seconds=60))\<close>, which
  runs before the dependencies of the handler's parameters. The limiter counts a caller's
  requests in an external store over real time, so its outcome on the request at hand is
  the parameter \<open>limiter\<close>: \<open>None\<close> when it admits the request, \<open>Some e\<close> when it ends
  the request with \<open>e\<close> (the 429 of a caller over the limit, or the exception it raises
  when it cannot reach its store). Only an admitted request has its bearer token resolved
  and reaches the handler.
\<close>

definition post_contacts ::
  "error option \<Rightarrow> services \<Rightarrow> string \<Rightarrow> schemas_ContactCreate \<Rightarrow> db \<Rightarrow>
     (error + schemas_Contact) \<times> db" where
  "post_contacts limiter sv token contact db =
     (case limiter of
        Some e \<Rightarrow> (Inl e, db)
      | None \<Rightarrow>
          (case get_current_user sv token db of
             Inl e \<Rightarrow> (Inl e, db)
           | Inr current_user \<Rightarrow> create_contact contact current_user db))"

text \<open>\<^verbatim>\<open>GET /contacts/\<close>, with \<^verbatim>\<open>response_model=List[ContactSchema]\<close>; it has no dependency
  on \<^verbatim>\<open>get_current_user\<close> and so takes no token.\<close>

definition get_contacts :: "db \<Rightarrow> error + schemas_Contact list" where
  "get_contacts db =
     (case those (map (\<lambda>c. validate_Contact (getattr_Contact c)) (contacts db)) of
        None \<Rightarrow> Inl ResponseValidationError
      | Some views \<Rightarrow> Inr views)"

definition get_contact :: "int \<Rightarrow> db \<Rightarrow> error + schemas_Contact" where
  "get_contact cid db =
     (case find (\<lambda>c. contact_id c = cid) (contacts db) of
        None \<Rightarrow> Inl (HTTPException 404 ''Contact not found'')
      | Some contact \<Rightarrow> response_model_Contact (getattr_Contact contact))"

text \<open>\<^verbatim>\<open>setattr(db_contact, key, value)\<close> for the keys \<^verbatim>\<open>ContactUpdate\<close> can produce.\<close>

definition setattr_Contact :: "string \<times> string option \<Rightarrow> models_Contact \<Rightarrow> models_Contact" where
  "setattr_Contact kv c =
     (if fst kv = ''first_name'' then c\<lparr>first_name := snd kv\<rparr>
      else if fst kv = ''last_name'' then c\<lparr>last_name := snd kv\<rparr>
      else if fst kv = ''email'' then c\<lparr>email := snd kv\<rparr>
      else if fst kv = ''phone'' then c\<lparr>phone := snd kv\<rparr>
      else if fst kv = ''additional_info'' then c\<lparr>additional_info := snd kv\<rparr>
      else c)"

text \<open>\<^verbatim>\<open>PUT /contacts/{contact_id}\<close>: the handler on a parsed \<^verbatim>\<open>ContactUpdate\<close>, and the
  route, which reads the body first.\<close>

definition update_contact ::
  "int \<Rightarrow> schemas_ContactUpdate \<Rightarrow> db \<Rightarrow> (error + schemas_Contact) \<times> db" where
  "update_contact cid contact db =
     (case find (\<lambda>c. contact_id c = cid) (contacts db) of
        None \<Rightarrow> (Inl (HTTPException 404 ''Contact not found''), db)
      | Some db_contact \<Rightarrow>
          (let items = dict_exclude_unset contact;
               db' = db\<lparr>contacts := map (\<lambda>c. if contact_id c = contact_id db_contact
                                              then fold setattr_Contact items c else c)
                                        (contacts db)\<rparr>
           in (response_model_Contact (getattr_Contact (fold setattr_Contact items db_contact)),
               db')))"

definition put_contacts ::
  "int \<Rightarrow> (string \<rightharpoonup> pyval) \<Rightarrow> db \<Rightarrow> (error + schemas_Contact) \<times> db" where
  "put_contacts cid body db =
     (case parse_ContactUpdate body of
        Inl e \<Rightarrow> (Inl e, db)
      | Inr contact \<Rightarrow> update_contact cid contact db)"

text \<open>\<^verbatim>\<open>DELETE /contacts/{contact_id}\<close>.\<close>

definition delete_contact :: "int \<Rightarrow> db \<Rightarrow> (error + json_dict) \<times> db" where
  "delete_contact cid db =
     (case find (\<lambda>c. contact_id c = cid) (contacts db) of
        None \<Rightarrow> (Inl (HTTPException 404 ''Contact not found''), db)
      | Some db_contact \<Rightarrow>
          (Inr [(''ok'', PBool True)],
           db\<lparr>contacts := filter (\<lambda>c. contact_id c \<noteq> contact_id db_contact) (contacts db)\<rparr>))"

text \<open>\<^verbatim>\<open>PUT /users/avatar/\<close>; \<open>file\<close> is the uploaded content.\<close>

definition update_avatar :: "services \<Rightarrow> string \<Rightarrow> string \<Rightarrow> db \<Rightarrow> (error + json_dict) \<times> db" where
  "update_avatar sv token file db =
     (case get_current_user sv token db of
        Inl e \<Rightarrow> (Inl e, db)
      | Inr current_user \<Rightarrow>
          (case uploader_upload sv file ''avatars'' of
             Inl e \<Rightarrow> (Inl e, db)
           | Inr result \<Rightarrow>
               (case result ''url'' of
                  None \<Rightarrow> (Inl (KeyError ''url''), db)
                | Some url \<Rightarrow>
                    (Inr [(''msg'', PStr ''Avatar updated''), (''avatar_url'', PStr url)],
                     db\<lparr>users := map (\<lambda>u. if user_id u = user_id current_user
                                           then u\<lparr>avatar_url := Some url\<rparr> else u)
                                      (users db)\<rparr>))))"

section \<open>States the public operations can reach\<close>

text \<open>
  Storage starts empty and changes only through the handlers that commit. The read-only
  routes (\<^verbatim>\<open>login\<close>, the two \<^verbatim>\<open>GET /contacts\<close> routes) return no state and so add no rule.
\<close>

inductive reachable :: "db \<Rightarrow> bool" where
  init: "reachable empty_db"
| step_register: "reachable db \<Longrightarrow> reachable (snd (register sv rnd user db))"
| step_verify_email: "reachable db \<Longrightarrow> reachable (snd (verify_email token db))"
| step_update_avatar: "reachable db \<Longrightarrow> reachable (snd (update_avatar sv token file db))"
| step_post_contacts:
    "reachable db \<Longrightarrow> reachable (snd (post_contacts limiter sv token contact db))"
| step_put_contacts: "reachable db \<Longrightarrow> reachable (snd (put_contacts cid body db))"
| step_delete_contact: "reachable db \<Longrightarrow> reachable (snd (delete_contact cid db))"

text \<open>The invariant of the data model on one row of \<^verbatim>\<open>users\<close>.\<close>

definition token_invariant :: "models_User \<Rightarrow> bool" where
  "token_invariant u =
     (if is_verified u then verification_token u = None
      else (case verification_token u of None \<Rightarrow> False | Some t \<Rightarrow> t \<noteq> []))"

text \<open>A concrete set of collaborators, for running the handlers on examples.\<close>

definition example_services :: services where
  "example_services =
     \<lparr>hash_password = rev,
      verify_password = (\<lambda>plain hashed. hashed = rev plain),
      create_access_token = (\<lambda>data. concat (map snd data)),
      verify_token = (\<lambda>token. Inr [''sub'' \<mapsto> PStr token]),
      uploader_upload = (\<lambda>file folder. Inr [''url'' \<mapsto> folder @ ''/'' @ file])\<rparr>"

text \<open>Two registrations, the first of them verified with the token it was issued.\<close>

definition example_two_users :: db where
  "example_two_users =
     snd (verify_email ''00000000-0000-4000-8000-000000000000''
       (snd (register example_services 1 \<lparr>uc_email = ''b@example.com'', uc_password = ''pw2''\<rparr>
         (snd (register example_services 0 \<lparr>uc_email = ''a@example.com'', uc_password = ''pw1''\<rparr>
            empty_db)))))"

text \<open>
  Storage that holds one contact with every column set, and storage that holds one contact
  stored without \<^verbatim>\<open>additional_info\<close>, as the repository's unit test stores its contact.
\<close>

definition example_with_contact :: db where
  "example_with_contact =
     \<lparr>users = users example_two_users,
      contacts =
        [\<lparr>contact_id = 1, first_name = Some ''John'', last_name = Some ''Doe'',
          email = Some ''johndoe@example.com'', phone = Some ''123456789'',
          birthday = Some (Date 1990 1 1), additional_info = Some ''friend'',
          owner_id = Some 1\<rparr>]\<rparr>"

definition example_missing_info :: db where
  "example_missing_info =
     \<lparr>users =
        [\<lparr>user_id = 1, user_email = ''test@example.com'', hashed_password = ''drowssap'',
          is_verified = False, verification_token = None, avatar_url = None\<rparr>],
      contacts =
        [\<lparr>contact_id = 1, first_name = Some ''John'', last_name = Some ''Doe'',
          email = Some ''johndoe@example.com'', phone = Some ''123456789'',
          birthday = Some (Date 1990 1 1), additional_info = None,
          owner_id = Some 1\<rparr>]\<rparr>"

text \<open>The value of a column after an update that may or may not supply it.\<close>

definition overwrite :: "'a option \<Rightarrow> 'a \<Rightarrow> 'a" where
  "overwrite supplied prior = (case supplied of None \<Rightarrow> prior | Some v \<Rightarrow> v)"

text \<open>Storage after a \<^verbatim>\<open>PUT /contacts/1\<close> whose body is \<^verbatim>\<open>{"first_name": null}\<close>.\<close>

definition example_null_name :: db where
  "example_null_name = snd (put_contacts 1 [''first_name'' \<mapsto> PNone] example_with_contact)"

section \<open>Lookup and registration lemmas\<close>

lemma find_append:
  "find P (xs @ ys) = (case find P xs of None \<Rightarrow> find P ys | Some x \<Rightarrow> Some x)"
  by (induction xs) simp_all

lemma validate_Contact_User: "validate_Contact (getattr_User u) = None"
  by (simp add: validate_Contact_def getattr_User_def)

lemma register_existing:
  "find (\<lambda>u. user_email u = uc_email user) (users db) = Some x \<Longrightarrow>
   register sv rnd user db = (Inl (HTTPException 409 ''User with this email already exists''), db)"
  by (simp add: register_def)

lemma register_fresh:
  "find (\<lambda>u. user_email u = uc_email user) (users db) = None \<Longrightarrow>
   register sv rnd user db =
     (Inl ResponseValidationError,
      db\<lparr>users := users db @
        [\<lparr>user_id = next_id (map user_id (users db)), user_email = uc_email user,
          hashed_password = hash_password sv (uc_password user), is_verified = False,
          verification_token = Some (str_uuid (uuid4 rnd)), avatar_url = None\<rparr>]\<rparr>)"
  by (simp add: register_def Let_def response_model_Contact_def validate_Contact_User)

text \<open>No request to \<^verbatim>\<open>POST /register/\<close> is answered with a view.\<close>

lemma register_never_returns_view: "fst (register sv rnd user db) \<noteq> Inr view"
  by (cases "find (\<lambda>u. user_email u = uc_email user) (users db)")
     (simp_all add: register_fresh register_existing)

section \<open>Registration\<close>

text \<open>
  Claim C1 says that \<^verbatim>\<open>POST /register/\<close> with a fresh email answers 200 with the user's
  view and \<^verbatim>\<open>is_verified = false\<close>. The route is declared with
  \<^verbatim>\<open>response_model=ContactSchema\<close>, which is \<^verbatim>\<open>schemas.Contact\<close>, while the handler
  returns a \<^verbatim>\<open>models.User\<close>: the row has no \<^verbatim>\<open>first_name\<close>, \<^verbatim>\<open>last_name\<close>,
  \<^verbatim>\<open>phone\<close>, \<^verbatim>\<open>birthday\<close>, \<^verbatim>\<open>additional_info\<close> or \<^verbatim>\<open>owner_id\<close>. On the request of
  \<^verbatim>\<open>test_register_user\<close> against empty storage the handler commits the new, unverified
  user and the response then fails validation: the request ends as a server error, not as
  the 200 that the test asserts.
\<close>

theorem register_fresh_email_is_server_error:
  "register sv rnd \<lparr>uc_email = ''testuser@example.com'', uc_password = ''testpassword''\<rparr> empty_db =
     (Inl ResponseValidationError,
      \<lparr>users = [\<lparr>user_id = 1, user_email = ''testuser@example.com'',
                 hashed_password = hash_password sv ''testpassword'', is_verified = False,
                 verification_token = Some (str_uuid (uuid4 rnd)), avatar_url = None\<rparr>],
       contacts = []\<rparr>)
   \<and> status_code (fst (register sv rnd
         \<lparr>uc_email = ''testuser@example.com'', uc_password = ''testpassword''\<rparr> empty_db)) = 500"
  by (simp add: register_fresh empty_db_def next_id_def)

text \<open>
  Claim C7: registering a second time with the same email fails with 409 Conflict and
  leaves storage as the first call left it; when the email was fresh before the first
  call, storage then holds exactly one user with that email.
\<close>

theorem register_twice_conflict:
  "(let db1 = snd (register sv rnd user db);
        second = register sv' rnd' \<lparr>uc_email = uc_email user, uc_password = pw'\<rparr> db1
    in fst second = Inl (HTTPException 409 ''User with this email already exists'')
       \<and> status_code (fst second) = 409
       \<and> snd second = db1
       \<and> (find (\<lambda>u. user_email u = uc_email user) (users db) = None \<longrightarrow>
            length (filter (\<lambda>u. user_email u = uc_email user) (users (snd second))) = 1))"
proof (cases "find (\<lambda>u. user_email u = uc_email user) (users db)")
  case None
  then have nobody: "filter (\<lambda>u. user_email u = uc_email user) (users db) = []"
    by (simp add: find_None_iff filter_empty_conv)
  let ?new = "\<lparr>user_id = next_id (map user_id (users db)), user_email = uc_email user,
          hashed_password = hash_password sv (uc_password user), is_verified = False,
          verification_token = Some (str_uuid (uuid4 rnd)), avatar_url = None\<rparr>"
  have db1: "snd (register sv rnd user db) = db\<lparr>users := users db @ [?new]\<rparr>"
    using None by (simp add: register_fresh)
  have "find (\<lambda>u. user_email u = uc_email user) (users db @ [?new]) = Some ?new"
    using None by (simp add: find_append)
  then have "register sv' rnd' \<lparr>uc_email = uc_email user, uc_password = pw'\<rparr>
               (db\<lparr>users := users db @ [?new]\<rparr>)
      = (Inl (HTTPException 409 ''User with this email already exists''),
         db\<lparr>users := users db @ [?new]\<rparr>)"
    by (simp add: register_existing)
  then show ?thesis
    using nobody by (simp add: db1 Let_def)
next
  case (Some x)
  then have db1: "snd (register sv rnd user db) = db"
    by (simp add: register_existing)
  have "register sv' rnd' \<lparr>uc_email = uc_email user, uc_password = pw'\<rparr> db
      = (Inl (HTTPException 409 ''User with this email already exists''), db)"
    using Some by (simp add: register_existing)
  then show ?thesis
    using Some by (simp add: db1 Let_def)
qed

theorem register_twice_conflict_witness:
  "find (\<lambda>u. user_email u = ''existinguser@example.com'') (users empty_db) = None
   \<and> length (filter (\<lambda>u. user_email u = ''existinguser@example.com'')
        (users (snd (register example_services 1
               \<lparr>uc_email = ''existinguser@example.com'', uc_password = ''password''\<rparr>
               (snd (register example_services 0
                  \<lparr>uc_email = ''existinguser@example.com'', uc_password = ''password''\<rparr>
                  empty_db)))))) = 1"
  using register_twice_conflict
    [where sv = example_services and rnd = 0 and sv' = example_services and rnd' = 1
       and user = "\<lparr>uc_email = ''existinguser@example.com'', uc_password = ''password''\<rparr>"
       and pw' = "''password''" and db = empty_db]
  by (auto simp: Let_def empty_db_def)

section \<open>The verification-token invariant\<close>

lemma length_str_uuid: "length (str_uuid w) = 36"
  by (simp add: str_uuid_def hex32_def Let_def)

lemma str_uuid_nonempty: "str_uuid w \<noteq> []"
  using length_str_uuid [of w] by auto

text \<open>What each committing handler does to the table of users.\<close>

lemma users_register:
  "users (snd (register sv rnd user db)) = users db \<or>
   users (snd (register sv rnd user db)) = users db @
        [\<lparr>user_id = next_id (map user_id (users db)), user_email = uc_email user,
          hashed_password = hash_password sv (uc_password user), is_verified = False,
          verification_token = Some (str_uuid (uuid4 rnd)), avatar_url = None\<rparr>]"
  by (cases "find (\<lambda>u. user_email u = uc_email user) (users db)")
     (simp_all add: register_fresh register_existing)

lemma users_verify_email:
  "users (snd (verify_email token db)) = users db \<or>
   (\<exists>i. users (snd (verify_email token db)) =
      map (\<lambda>u. if user_id u = i then u\<lparr>is_verified := True, verification_token := None\<rparr> else u)
        (users db))"
  by (cases "find (\<lambda>u. verification_token u = Some token) (users db)")
     (auto simp: verify_email_def)

lemma users_update_avatar:
  "users (snd (update_avatar sv token content db)) = users db \<or>
   (\<exists>i url. users (snd (update_avatar sv token content db)) =
      map (\<lambda>u. if user_id u = i then u\<lparr>avatar_url := Some url\<rparr> else u) (users db))"
  by (auto simp: update_avatar_def split: sum.splits option.splits)

lemma users_create_contact: "users (snd (create_contact contact current_user db)) = users db"
  by (simp add: create_contact_def Let_def)

lemma users_post_contacts: "users (snd (post_contacts limiter sv token contact db)) = users db"
  by (simp add: post_contacts_def users_create_contact split: sum.splits option.splits)

lemma users_put_contacts: "users (snd (put_contacts cid body db)) = users db"
  by (simp add: put_contacts_def update_contact_def Let_def split: sum.splits option.splits)

lemma users_delete_contact: "users (snd (delete_contact cid db)) = users db"
  by (simp add: delete_contact_def split: option.splits)

lemma reachable_token_invariant:
  "reachable db \<Longrightarrow> list_all token_invariant (users db)"
proof (induction rule: reachable.induct)
  case init
  show ?case by (simp add: empty_db_def)
next
  case (step_register db sv rnd user)
  then show ?case
    using users_register [of sv rnd user db]
    by (auto simp: list_all_iff token_invariant_def str_uuid_nonempty)
next
  case (step_verify_email db token)
  then show ?case
    using users_verify_email [of token db]
    by (auto simp: token_invariant_def list_all_iff)
next
  case (step_update_avatar db sv token content)
  then show ?case
    using users_update_avatar [of sv token content db]
    by (auto simp: token_invariant_def list_all_iff)
next
  case (step_post_contacts db limiter sv token contact)
  then show ?case by (simp add: users_post_contacts)
next
  case (step_put_contacts db cid body)
  then show ?case by (simp add: users_put_contacts)
next
  case (step_delete_contact db cid)
  then show ?case by (simp add: users_delete_contact)
qed

lemma example_two_users_value:
  "users example_two_users =
     [\<lparr>user_id = 1, user_email = ''a@example.com'', hashed_password = ''1wp'',
       is_verified = True, verification_token = None, avatar_url = None\<rparr>,
      \<lparr>user_id = 2, user_email = ''b@example.com'', hashed_password = ''2wp'',
       is_verified = False, verification_token = Some ''00000000-0000-4000-8000-000000000001'',
       avatar_url = None\<rparr>]"
  by code_simp

lemma reachable_example_two_users: "reachable example_two_users"
  unfolding example_two_users_def
  by (intro reachable.step_verify_email reachable.step_register reachable.init)

text \<open>
  Claim C2: in every storage state that the public operations reach from empty storage,
  each user that is not verified holds a non-empty verification token, and each verified
  user holds none.
\<close>

theorem reachable_users_token_invariant:
  assumes "reachable db" and "u \<in> set (users db)"
  shows "(\<not> is_verified u \<longrightarrow> (\<exists>t. verification_token u = Some t \<and> t \<noteq> []))
       \<and> (is_verified u \<longrightarrow> verification_token u = None)"
  using reachable_token_invariant [OF assms(1)] assms(2)
  by (auto simp: list_all_iff token_invariant_def split: option.splits if_splits)

theorem reachable_users_token_invariant_witness:
  "reachable example_two_users
   \<and> users example_two_users ! 1 \<in> set (users example_two_users)
   \<and> \<not> is_verified (users example_two_users ! 1)
   \<and> (\<exists>t. verification_token (users example_two_users ! 1) = Some t \<and> t \<noteq> [])
   \<and> users example_two_users ! 0 \<in> set (users example_two_users)
   \<and> is_verified (users example_two_users ! 0)
   \<and> verification_token (users example_two_users ! 0) = None"
proof -
  have m0: "users example_two_users ! 0 \<in> set (users example_two_users)"
    and m1: "users example_two_users ! 1 \<in> set (users example_two_users)"
    by (simp_all add: example_two_users_value)
  have v: "is_verified (users example_two_users ! 0)"
    "\<not> is_verified (users example_two_users ! 1)"
    by (simp_all add: example_two_users_value)
  show ?thesis
    using reachable_users_token_invariant [OF reachable_example_two_users m0]
      reachable_users_token_invariant [OF reachable_example_two_users m1]
      reachable_example_two_users m0 m1 v
    by blast
qed

section \<open>Email verification\<close>

lemma fold_max_ge: "(a::int) \<le> fold max xs a \<and> (\<forall>x\<in>set xs. x \<le> fold max xs a)"
proof (induction xs arbitrary: a)
  case Nil
  show ?case by simp
next
  case (Cons y ys)
  have "max y a \<le> fold max ys (max y a)" and "\<forall>x\<in>set ys. x \<le> fold max ys (max y a)"
    using Cons.IH [of "max y a"] by simp_all
  then show ?case by auto
qed

lemma next_id_fresh: "i \<in> set ids \<Longrightarrow> i < next_id ids"
  using fold_max_ge [of 0 ids] by (auto simp: next_id_def)

lemma next_id_not_used: "x \<in> set xs \<Longrightarrow> f x \<noteq> next_id (map f xs)"
  using next_id_fresh [of "f x" "map f xs"] by auto

lemma verify_email_unheld:
  "\<forall>u\<in>set (users db). verification_token u \<noteq> Some token \<Longrightarrow>
   verify_email token db = (Inl (HTTPException 400 ''Invalid token''), db)"
proof -
  assume "\<forall>u\<in>set (users db). verification_token u \<noteq> Some token"
  then have "find (\<lambda>u. verification_token u = Some token) (users db) = None"
    by (simp add: find_None_iff)
  then show ?thesis by (simp add: verify_email_def)
qed

lemma verify_email_held:
  "find (\<lambda>u. verification_token u = Some token) (users db) = Some user \<Longrightarrow>
   verify_email token db =
     (Inr [(''msg'', PStr ''Email verified successfully'')],
      db\<lparr>users := map (\<lambda>u. if user_id u = user_id user
                            then u\<lparr>is_verified := True, verification_token := None\<rparr> else u)
                       (users db)\<rparr>)"
  by (simp add: verify_email_def)

lemma verify_email_single_holder:
  assumes found: "find (\<lambda>u. verification_token u = Some token) (users db) = Some user"
    and single: "\<forall>v\<in>set (users db). verification_token v = Some token \<longrightarrow> user_id v = user_id user"
  shows "verify_email token (snd (verify_email token db)) =
           (Inl (HTTPException 400 ''Invalid token''), snd (verify_email token db))"
proof (rule verify_email_unheld)
  show "\<forall>u\<in>set (users (snd (verify_email token db))). verification_token u \<noteq> Some token"
    using single by (auto simp: verify_email_held [OF found])
qed

text \<open>
  Claim C3, in three parts. A token that no user holds is rejected with 400 Invalid token
  and storage is unchanged. A token issued by a registration (fresh email, and a fresh
  identifier: no stored user already holds the same string) verifies that user exactly
  once: the first call succeeds, sets \<^verbatim>\<open>is_verified\<close> and clears the token, and the
  same call repeated is rejected. The same holds in any later state where the token's
  holder is the only row holding it.
\<close>

theorem verify_email_token_once:
  "(list_all (\<lambda>u. verification_token u \<noteq> Some token) (users db) \<longrightarrow>
      verify_email token db = (Inl (HTTPException 400 ''Invalid token''), db)
      \<and> status_code (fst (verify_email token db)) = 400)
   \<and> (find (\<lambda>u. user_email u = uc_email user) (users db) = None
       \<and> list_all (\<lambda>u. verification_token u \<noteq> Some (str_uuid (uuid4 rnd))) (users db) \<longrightarrow>
       (let issued = str_uuid (uuid4 rnd);
            db1 = snd (register sv rnd user db);
            db2 = snd (verify_email issued db1)
        in users db1 = users db @
             [\<lparr>user_id = next_id (map user_id (users db)), user_email = uc_email user,
               hashed_password = hash_password sv (uc_password user), is_verified = False,
               verification_token = Some issued, avatar_url = None\<rparr>]
           \<and> fst (verify_email issued db1) = Inr [(''msg'', PStr ''Email verified successfully'')]
           \<and> users db2 = users db @
             [\<lparr>user_id = next_id (map user_id (users db)), user_email = uc_email user,
               hashed_password = hash_password sv (uc_password user), is_verified = True,
               verification_token = None, avatar_url = None\<rparr>]
           \<and> verify_email issued db2 = (Inl (HTTPException 400 ''Invalid token''), db2)))
   \<and> (find (\<lambda>u. verification_token u = Some token) (users db) = Some holder
       \<and> list_all (\<lambda>v. verification_token v = Some token \<longrightarrow> user_id v = user_id holder) (users db) \<longrightarrow>
       fst (verify_email token db) = Inr [(''msg'', PStr ''Email verified successfully'')]
       \<and> users (snd (verify_email token db)) =
            map (\<lambda>u. if user_id u = user_id holder
                      then u\<lparr>is_verified := True, verification_token := None\<rparr> else u) (users db)
       \<and> verify_email token (snd (verify_email token db)) =
            (Inl (HTTPException 400 ''Invalid token''), snd (verify_email token db)))"
proof (intro conjI impI)
  assume "list_all (\<lambda>u. verification_token u \<noteq> Some token) (users db)"
  then show "verify_email token db = (Inl (HTTPException 400 ''Invalid token''), db)"
    by (intro verify_email_unheld) (simp add: list_all_iff)
  then show "status_code (fst (verify_email token db)) = 400" by simp
next
  assume a: "find (\<lambda>u. verification_token u = Some token) (users db) = Some holder
       \<and> list_all (\<lambda>v. verification_token v = Some token \<longrightarrow> user_id v = user_id holder) (users db)"
  then show "fst (verify_email token db) = Inr [(''msg'', PStr ''Email verified successfully'')]"
    by (simp add: verify_email_held)
  from a show "users (snd (verify_email token db)) =
            map (\<lambda>u. if user_id u = user_id holder
                      then u\<lparr>is_verified := True, verification_token := None\<rparr> else u) (users db)"
    by (simp add: verify_email_held)
  from a show "verify_email token (snd (verify_email token db)) =
            (Inl (HTTPException 400 ''Invalid token''), snd (verify_email token db))"
    by (simp add: verify_email_single_holder list_all_iff)
next
  let ?issued = "str_uuid (uuid4 rnd)"
  let ?new = "\<lparr>user_id = next_id (map user_id (users db)), user_email = uc_email user,
               hashed_password = hash_password sv (uc_password user), is_verified = False,
               verification_token = Some ?issued, avatar_url = None\<rparr>"
  assume a: "find (\<lambda>u. user_email u = uc_email user) (users db) = None
       \<and> list_all (\<lambda>u. verification_token u \<noteq> Some ?issued) (users db)"
  then have unheld: "\<forall>u\<in>set (users db). verification_token u \<noteq> Some ?issued"
    by (simp add: list_all_iff)
  from a have db1: "snd (register sv rnd user db) = db\<lparr>users := users db @ [?new]\<rparr>"
    by (simp add: register_fresh)
  from unheld have "find (\<lambda>u. verification_token u = Some ?issued) (users db) = None"
    by (simp add: find_None_iff)
  then have found: "find (\<lambda>u. verification_token u = Some ?issued)
                      (users (db\<lparr>users := users db @ [?new]\<rparr>)) = Some ?new"
    by (simp add: find_append)
  have others: "map (\<lambda>u. if user_id u = next_id (map user_id (users db))
                      then u\<lparr>is_verified := True, verification_token := None\<rparr> else u) (users db)
                = users db"
    by (intro map_idI) (simp add: next_id_not_used)
  have db2: "verify_email ?issued (db\<lparr>users := users db @ [?new]\<rparr>) =
      (Inr [(''msg'', PStr ''Email verified successfully'')],
       db\<lparr>users := users db @ [?new\<lparr>is_verified := True, verification_token := None\<rparr>]\<rparr>)"
    using others by (simp add: verify_email_held [OF found])
  have again: "verify_email ?issued
         (db\<lparr>users := users db @ [?new\<lparr>is_verified := True, verification_token := None\<rparr>]\<rparr>)
       = (Inl (HTTPException 400 ''Invalid token''),
          db\<lparr>users := users db @ [?new\<lparr>is_verified := True, verification_token := None\<rparr>]\<rparr>)"
    using unheld by (intro verify_email_unheld) auto
  show "(let issued = str_uuid (uuid4 rnd);
            db1 = snd (register sv rnd user db);
            db2 = snd (verify_email issued db1)
        in users db1 = users db @
             [\<lparr>user_id = next_id (map user_id (users db)), user_email = uc_email user,
               hashed_password = hash_password sv (uc_password user), is_verified = False,
               verification_token = Some issued, avatar_url = None\<rparr>]
           \<and> fst (verify_email issued db1) = Inr [(''msg'', PStr ''Email verified successfully'')]
           \<and> users db2 = users db @
             [\<lparr>user_id = next_id (map user_id (users db)), user_email = uc_email user,
               hashed_password = hash_password sv (uc_password user), is_verified = True,
               verification_token = None, avatar_url = None\<rparr>]
           \<and> verify_email issued db2 = (Inl (HTTPException 400 ''Invalid token''), db2))"
    using again by (simp add: Let_def db1 db2)
qed

theorem verify_email_token_once_witness:
  "list_all (\<lambda>u. verification_token u \<noteq> Some ''garbage'') (users example_two_users)
   \<and> verify_email ''garbage'' example_two_users =
       (Inl (HTTPException 400 ''Invalid token''), example_two_users)
   \<and> find (\<lambda>u. user_email u = ''a@example.com'') (users empty_db) = None
   \<and> list_all (\<lambda>u. verification_token u \<noteq> Some (str_uuid (uuid4 0))) (users empty_db)
   \<and> users (snd (verify_email (str_uuid (uuid4 0))
        (snd (register example_services 0
               \<lparr>uc_email = ''a@example.com'', uc_password = ''pw1''\<rparr> empty_db)))) =
       [\<lparr>user_id = 1, user_email = ''a@example.com'', hashed_password = ''1wp'',
         is_verified = True, verification_token = None, avatar_url = None\<rparr>]
   \<and> verify_email (str_uuid (uuid4 0))
        (snd (verify_email (str_uuid (uuid4 0))
          (snd (register example_services 0
                 \<lparr>uc_email = ''a@example.com'', uc_password = ''pw1''\<rparr> empty_db)))) =
       (Inl (HTTPException 400 ''Invalid token''),
        snd (verify_email (str_uuid (uuid4 0))
          (snd (register example_services 0
                 \<lparr>uc_email = ''a@example.com'', uc_password = ''pw1''\<rparr> empty_db))))
   \<and> find (\<lambda>u. verification_token u = Some ''00000000-0000-4000-8000-000000000001'')
        (users example_two_users) = Some (users example_two_users ! 1)
   \<and> list_all (\<lambda>v. verification_token v = Some ''00000000-0000-4000-8000-000000000001'' \<longrightarrow>
                    user_id v = user_id (users example_two_users ! 1)) (users example_two_users)
   \<and> fst (verify_email ''00000000-0000-4000-8000-000000000001'' example_two_users) =
       Inr [(''msg'', PStr ''Email verified successfully'')]
   \<and> verify_email ''00000000-0000-4000-8000-000000000001''
        (snd (verify_email ''00000000-0000-4000-8000-000000000001'' example_two_users)) =
       (Inl (HTTPException 400 ''Invalid token''),
        snd (verify_email ''00000000-0000-4000-8000-000000000001'' example_two_users))"
proof -
  have h1: "list_all (\<lambda>u. verification_token u \<noteq> Some ''garbage'') (users example_two_users)"
    by (simp add: example_two_users_value)
  have h2: "find (\<lambda>u. user_email u = ''a@example.com'') (users empty_db) = None
            \<and> list_all (\<lambda>u. verification_token u \<noteq> Some (str_uuid (uuid4 0))) (users empty_db)"
    by (simp add: empty_db_def)
  have h3: "find (\<lambda>u. verification_token u = Some ''00000000-0000-4000-8000-000000000001'')
        (users example_two_users) = Some (users example_two_users ! 1)
     \<and> list_all (\<lambda>v. verification_token v = Some ''00000000-0000-4000-8000-000000000001'' \<longrightarrow>
                    user_id v = user_id (users example_two_users ! 1)) (users example_two_users)"
    by (simp add: example_two_users_value)
  have e: "next_id (map user_id (users empty_db)) = 1"
    "hash_password example_services ''pw1'' = ''1wp''"
    by (simp_all add: empty_db_def next_id_def example_services_def)
  note t1 = verify_email_token_once [where db = example_two_users and token = "''garbage''"]
  note t2 = verify_email_token_once [where db = empty_db and rnd = 0 and sv = example_services
       and user = "\<lparr>uc_email = ''a@example.com'', uc_password = ''pw1''\<rparr>"]
  note t3 = verify_email_token_once [where db = example_two_users
       and token = "''00000000-0000-4000-8000-000000000001''"
       and holder = "users example_two_users ! 1"]
  have c1: "verify_email ''garbage'' example_two_users =
       (Inl (HTTPException 400 ''Invalid token''), example_two_users)"
    using t1 h1 by blast
  have c2: "users (snd (verify_email (str_uuid (uuid4 0))
        (snd (register example_services 0
               \<lparr>uc_email = ''a@example.com'', uc_password = ''pw1''\<rparr> empty_db)))) =
       [\<lparr>user_id = 1, user_email = ''a@example.com'', hashed_password = ''1wp'',
         is_verified = True, verification_token = None, avatar_url = None\<rparr>]
      \<and> verify_email (str_uuid (uuid4 0))
        (snd (verify_email (str_uuid (uuid4 0))
          (snd (register example_services 0
                 \<lparr>uc_email = ''a@example.com'', uc_password = ''pw1''\<rparr> empty_db)))) =
       (Inl (HTTPException 400 ''Invalid token''),
        snd (verify_email (str_uuid (uuid4 0))
          (snd (register example_services 0
                 \<lparr>uc_email = ''a@example.com'', uc_password = ''pw1''\<rparr> empty_db))))"
    using t2 h2 e by (simp add: Let_def empty_db_def)
  have c3: "fst (verify_email ''00000000-0000-4000-8000-000000000001'' example_two_users) =
       Inr [(''msg'', PStr ''Email verified successfully'')]
     \<and> verify_email ''00000000-0000-4000-8000-000000000001''
        (snd (verify_email ''00000000-0000-4000-8000-000000000001'' example_two_users)) =
       (Inl (HTTPException 400 ''Invalid token''),
        snd (verify_email ''00000000-0000-4000-8000-000000000001'' example_two_users))"
    using t3 h3 by blast
  show ?thesis using h1 h2 h3 c1 c2 c3 by blast
qed

section \<open>Login\<close>

lemma find_email_None:
  "(find (\<lambda>u. user_email u = e) us = None) = list_all (\<lambda>u. user_email u \<noteq> e) us"
  by (auto simp: find_None_iff list_all_iff)

text \<open>
  Claim C4: \<^verbatim>\<open>login\<close> fails with 401 exactly when no user has the given email, or the
  password does not verify against the stored hash of the user found, or that user is not
  verified; it has no other failure, and on success the access token is the one minted
  for the data \<^verbatim>\<open>{"sub": email}\<close> of that user, whose email is the one given.
\<close>

theorem login_unauthorized_iff:
  "((\<exists>detail. login sv form_data db = Inl (HTTPException 401 detail)) \<longleftrightarrow>
      (list_all (\<lambda>u. user_email u \<noteq> username form_data) (users db)
       \<or> (\<exists>user. find (\<lambda>u. user_email u = username form_data) (users db) = Some user
             \<and> (\<not> verify_password sv (password form_data) (hashed_password user)
                  \<or> \<not> is_verified user))))
   \<and> ((\<exists>detail. login sv form_data db = Inl (HTTPException 401 detail))
        \<or> (\<exists>user. find (\<lambda>u. user_email u = username form_data) (users db) = Some user
              \<and> user_email user = username form_data
              \<and> login sv form_data db =
                  Inr [(''access_token'', PStr (create_access_token sv [(''sub'', user_email user)])),
                       (''token_type'', PStr ''bearer'')]))"
proof (cases "find (\<lambda>u. user_email u = username form_data) (users db)")
  case None
  then have "list_all (\<lambda>u. user_email u \<noteq> username form_data) (users db)"
    by (simp add: find_email_None)
  then show ?thesis using None by (simp add: login_def)
next
  case (Some user)
  then have e: "user_email user = username form_data"
    by (auto simp: find_Some_iff)
  from Some have "\<not> list_all (\<lambda>u. user_email u \<noteq> username form_data) (users db)"
    using find_email_None [of "username form_data" "users db"] by simp
  then show ?thesis using Some e by (simp add: login_def)
qed

theorem login_unauthorized_iff_witness:
  "login example_services \<lparr>username = ''a@example.com'', password = ''pw1''\<rparr> example_two_users =
     Inr [(''access_token'', PStr (create_access_token example_services [(''sub'', ''a@example.com'')])),
          (''token_type'', PStr ''bearer'')]
   \<and> find (\<lambda>u. user_email u = ''b@example.com'') (users example_two_users)
       = Some (users example_two_users ! 1)
   \<and> verify_password example_services ''pw2'' (hashed_password (users example_two_users ! 1))
   \<and> \<not> is_verified (users example_two_users ! 1)
   \<and> (\<exists>detail. login example_services \<lparr>username = ''b@example.com'', password = ''pw2''\<rparr>
         example_two_users = Inl (HTTPException 401 detail))
   \<and> list_all (\<lambda>u. user_email u \<noteq> ''c@example.com'') (users example_two_users)
   \<and> (\<exists>detail. login example_services \<lparr>username = ''c@example.com'', password = ''pw1''\<rparr>
         example_two_users = Inl (HTTPException 401 detail))"
proof -
  have a: "find (\<lambda>u. user_email u = ''a@example.com'') (users example_two_users)
       = Some (users example_two_users ! 0)"
    "verify_password example_services ''pw1'' (hashed_password (users example_two_users ! 0))"
    "is_verified (users example_two_users ! 0)"
    "\<not> list_all (\<lambda>u. user_email u \<noteq> ''a@example.com'') (users example_two_users)"
    by (simp_all add: example_two_users_value example_services_def)
  have b: "find (\<lambda>u. user_email u = ''b@example.com'') (users example_two_users)
       = Some (users example_two_users ! 1)"
    "verify_password example_services ''pw2'' (hashed_password (users example_two_users ! 1))"
    "\<not> is_verified (users example_two_users ! 1)"
    by (simp_all add: example_two_users_value example_services_def)
  have c: "list_all (\<lambda>u. user_email u \<noteq> ''c@example.com'') (users example_two_users)"
    by (simp add: example_two_users_value)
  have ea: "user_email (users example_two_users ! 0) = ''a@example.com''"
    by (simp add: example_two_users_value)
  note ta = login_unauthorized_iff [where sv = example_services and db = example_two_users
      and form_data = "\<lparr>username = ''a@example.com'', password = ''pw1''\<rparr>"]
  note tb = login_unauthorized_iff [where sv = example_services and db = example_two_users
      and form_data = "\<lparr>username = ''b@example.com'', password = ''pw2''\<rparr>"]
  note tc = login_unauthorized_iff [where sv = example_services and db = example_two_users
      and form_data = "\<lparr>username = ''c@example.com'', password = ''pw1''\<rparr>"]
  have ra: "login example_services \<lparr>username = ''a@example.com'', password = ''pw1''\<rparr> example_two_users =
     Inr [(''access_token'', PStr (create_access_token example_services [(''sub'', ''a@example.com'')])),
          (''token_type'', PStr ''bearer'')]"
    using ta a ea by auto
  have rb: "\<exists>detail. login example_services \<lparr>username = ''b@example.com'', password = ''pw2''\<rparr>
         example_two_users = Inl (HTTPException 401 detail)"
    using tb b by auto
  have rc: "\<exists>detail. login example_services \<lparr>username = ''c@example.com'', password = ''pw1''\<rparr>
         example_two_users = Inl (HTTPException 401 detail)"
    using tc c by auto
  show ?thesis using ra rb rc b c by blast
qed

section \<open>Contacts: create, get and delete\<close>

lemma find_id_None:
  "(find (\<lambda>c. contact_id c = cid) cs = None) = list_all (\<lambda>c. contact_id c \<noteq> cid) cs"
  by (auto simp: find_None_iff list_all_iff)

lemma validate_created_Contact:
  "validate_Contact (getattr_Contact
      \<lparr>contact_id = i, first_name = Some fn, last_name = Some ln, email = Some em,
       phone = Some ph, birthday = Some bd, additional_info = Some ai, owner_id = Some ow\<rparr>) =
   Some \<lparr>view_first_name = fn, view_last_name = ln, view_email = em, view_phone = ph,
         view_birthday = bd, view_additional_info = ai, view_id = i, view_owner_id = ow\<rparr>"
  by (simp add: validate_Contact_def getattr_Contact_def nullable_str_def)

lemma find_fresh_contact:
  "contact_id c = next_id (map contact_id cs) \<Longrightarrow>
   find (\<lambda>r. contact_id r = next_id (map contact_id cs)) (cs @ [c]) = Some c"
proof -
  assume c: "contact_id c = next_id (map contact_id cs)"
  have "find (\<lambda>r. contact_id r = next_id (map contact_id cs)) cs = None"
    by (simp add: find_None_iff next_id_not_used)
  then show ?thesis using c by (simp add: find_append)
qed

text \<open>
  Claim C5: a contact created for owner \<open>current_user\<close> with fields \<open>contact\<close> is
  returned with exactly those fields, the identifier that storage assigned (one no stored
  contact had) and the owner's id, and is stored so; fetching that identifier afterwards
  gives the same view. This is the handler, which an admitted request of an authenticated
  owner reaches (\<open>post_contacts_admitted\<close>).
\<close>

theorem create_then_get_roundtrip:
  "(let view = \<lparr>view_first_name = cc_first_name contact, view_last_name = cc_last_name contact,
                view_email = cc_email contact, view_phone = cc_phone contact,
                view_birthday = cc_birthday contact,
                view_additional_info = cc_additional_info contact,
                view_id = next_id (map contact_id (contacts db)),
                view_owner_id = user_id current_user\<rparr>
    in create_contact contact current_user db =
         (Inr view, db\<lparr>contacts := contacts db @
            [\<lparr>contact_id = view_id view, first_name = Some (cc_first_name contact),
              last_name = Some (cc_last_name contact), email = Some (cc_email contact),
              phone = Some (cc_phone contact), birthday = Some (cc_birthday contact),
              additional_info = Some (cc_additional_info contact),
              owner_id = Some (user_id current_user)\<rparr>]\<rparr>)
       \<and> get_contact (view_id view) (snd (create_contact contact current_user db)) = Inr view
       \<and> list_all (\<lambda>c. contact_id c \<noteq> view_id view) (contacts db))"
proof -
  let ?i = "next_id (map contact_id (contacts db))"
  let ?row = "\<lparr>contact_id = ?i, first_name = Some (cc_first_name contact),
              last_name = Some (cc_last_name contact), email = Some (cc_email contact),
              phone = Some (cc_phone contact), birthday = Some (cc_birthday contact),
              additional_info = Some (cc_additional_info contact),
              owner_id = Some (user_id current_user)\<rparr>"
  let ?view = "\<lparr>view_first_name = cc_first_name contact, view_last_name = cc_last_name contact,
                view_email = cc_email contact, view_phone = cc_phone contact,
                view_birthday = cc_birthday contact,
                view_additional_info = cc_additional_info contact,
                view_id = ?i, view_owner_id = user_id current_user\<rparr>"
  have created: "create_contact contact current_user db =
      (Inr ?view, db\<lparr>contacts := contacts db @ [?row]\<rparr>)"
    by (simp add: create_contact_def Let_def response_model_Contact_def validate_created_Contact)
  have "find (\<lambda>r. contact_id r = ?i) (contacts db @ [?row]) = Some ?row"
    by (rule find_fresh_contact) simp
  then have fetched: "get_contact ?i (db\<lparr>contacts := contacts db @ [?row]\<rparr>) = Inr ?view"
    by (simp add: get_contact_def response_model_Contact_def validate_created_Contact)
  have fresh: "list_all (\<lambda>c. contact_id c \<noteq> ?i) (contacts db)"
    by (simp add: list_all_iff next_id_not_used)
  show ?thesis
    using created fetched fresh by (simp add: Let_def)
qed

text \<open>The route around the handler: a refused request stores nothing, an admitted
  request of a resolved owner is the handler's call.\<close>

lemma post_contacts_refused: "post_contacts (Some e) sv token contact db = (Inl e, db)"
  by (simp add: post_contacts_def)

lemma post_contacts_admitted:
  "get_current_user sv token db = Inr current_user \<Longrightarrow>
   post_contacts None sv token contact db = create_contact contact current_user db"
  by (simp add: post_contacts_def)

lemma delete_contact_missing:
  "find (\<lambda>c. contact_id c = cid) (contacts db) = None \<Longrightarrow>
   delete_contact cid db = (Inl (HTTPException 404 ''Contact not found''), db)"
  by (simp add: delete_contact_def)

lemma find_SomeD: "find P xs = Some x \<Longrightarrow> P x \<and> x \<in> set xs"
  by (induction xs) (auto split: if_splits)

lemma delete_contact_found:
  assumes "find (\<lambda>c. contact_id c = cid) (contacts db) = Some c"
  shows "delete_contact cid db =
     (Inr [(''ok'', PBool True)], db\<lparr>contacts := filter (\<lambda>r. contact_id r \<noteq> cid) (contacts db)\<rparr>)"
proof -
  have "contact_id c = cid"
    using find_SomeD [OF assms] by simp
  then show ?thesis
    by (simp add: delete_contact_def assms)
qed

text \<open>
  Claim C8: deleting an identifier that no stored contact has fails with 404 Contact not
  found and changes nothing; deleting one that exists returns \<^verbatim>\<open>{"ok": True}\<close>, removes
  it, and a get of the same identifier then fails with 404 Contact not found.
\<close>

theorem delete_then_get_not_found:
  "(list_all (\<lambda>c. contact_id c \<noteq> cid) (contacts db) \<longrightarrow>
      delete_contact cid db = (Inl (HTTPException 404 ''Contact not found''), db)
      \<and> status_code (fst (delete_contact cid db)) = 404)
   \<and> (\<not> list_all (\<lambda>c. contact_id c \<noteq> cid) (contacts db) \<longrightarrow>
      fst (delete_contact cid db) = Inr [(''ok'', PBool True)]
      \<and> contacts (snd (delete_contact cid db)) = filter (\<lambda>c. contact_id c \<noteq> cid) (contacts db)
      \<and> get_contact cid (snd (delete_contact cid db)) = Inl (HTTPException 404 ''Contact not found'')
      \<and> status_code (get_contact cid (snd (delete_contact cid db))) = 404)"
proof (cases "find (\<lambda>c. contact_id c = cid) (contacts db)")
  case None
  then show ?thesis
    by (simp add: delete_contact_missing find_id_None [symmetric])
next
  case (Some c)
  have gone: "find (\<lambda>c. contact_id c = cid) (filter (\<lambda>r. contact_id r \<noteq> cid) (contacts db)) = None"
    by (simp add: find_None_iff)
  have "\<not> list_all (\<lambda>c. contact_id c \<noteq> cid) (contacts db)"
    using Some find_id_None [of cid "contacts db"] by simp
  then show ?thesis
    using gone by (simp add: delete_contact_found [OF Some] get_contact_def)
qed

lemma example_with_contact_value:
  "contacts example_with_contact =
     [\<lparr>contact_id = 1, first_name = Some ''John'', last_name = Some ''Doe'',
       email = Some ''johndoe@example.com'', phone = Some ''123456789'',
       birthday = Some (Date 1990 1 1), additional_info = Some ''friend'',
       owner_id = Some 1\<rparr>]"
  by (simp add: example_with_contact_def)

theorem delete_then_get_not_found_witness:
  "list_all (\<lambda>c. contact_id c \<noteq> 7) (contacts example_with_contact)
   \<and> delete_contact 7 example_with_contact =
       (Inl (HTTPException 404 ''Contact not found''), example_with_contact)
   \<and> \<not> list_all (\<lambda>c. contact_id c \<noteq> 1) (contacts example_with_contact)
   \<and> fst (delete_contact 1 example_with_contact) = Inr [(''ok'', PBool True)]
   \<and> get_contact 1 (snd (delete_contact 1 example_with_contact)) =
       Inl (HTTPException 404 ''Contact not found'')"
proof -
  have absent: "list_all (\<lambda>c. contact_id c \<noteq> 7) (contacts example_with_contact)"
    and present: "\<not> list_all (\<lambda>c. contact_id c \<noteq> 1) (contacts example_with_contact)"
    by (simp_all add: example_with_contact_value)
  show ?thesis
    using absent present
      delete_then_get_not_found [where cid = 7 and db = example_with_contact]
      delete_then_get_not_found [where cid = 1 and db = example_with_contact]
    by blast
qed

section \<open>Contacts: update\<close>

lemma optional_str_unset: "optional_str x = Inr y \<Longrightarrow> (y = None) = (x = None)"
  by (cases x rule: optional_str.cases) auto

lemma parse_ContactUpdate_fields:
  assumes "parse_ContactUpdate body = Inr cu"
  shows "optional_str (body ''first_name'') = Inr (cu_first_name cu)"
    and "optional_str (body ''last_name'') = Inr (cu_last_name cu)"
    and "optional_str (body ''email'') = Inr (cu_email cu)"
    and "optional_str (body ''phone'') = Inr (cu_phone cu)"
    and "optional_str (body ''additional_info'') = Inr (cu_additional_info cu)"
  using assms by (auto simp: parse_ContactUpdate_def split: sum.splits)

lemma fold_setattr_Contact:
  "fold setattr_Contact (dict_exclude_unset cu) c =
     c\<lparr>first_name := overwrite (cu_first_name cu) (first_name c),
       last_name := overwrite (cu_last_name cu) (last_name c),
       email := overwrite (cu_email cu) (email c),
       phone := overwrite (cu_phone cu) (phone c),
       additional_info := overwrite (cu_additional_info cu) (additional_info c)\<rparr>"
  by (cases "cu_first_name cu"; cases "cu_last_name cu"; cases "cu_email cu";
      cases "cu_phone cu"; cases "cu_additional_info cu")
     (simp_all add: dict_exclude_unset_def setattr_Contact_def overwrite_def)

lemma update_contact_contacts:
  assumes "find (\<lambda>c. contact_id c = cid) (contacts db) = Some x"
  shows "contacts (snd (update_contact cid cu db)) =
     map (\<lambda>c. if contact_id c = cid then fold setattr_Contact (dict_exclude_unset cu) c else c)
       (contacts db)"
proof -
  have "contact_id x = cid"
    using find_SomeD [OF assms] by simp
  then show ?thesis
    by (simp add: update_contact_def assms Let_def)
qed

lemma put_contacts_cases:
  "contacts (snd (put_contacts cid body db)) = contacts db \<or>
   (\<exists>cu. parse_ContactUpdate body = Inr cu \<and>
      contacts (snd (put_contacts cid body db)) =
        map (\<lambda>c. if contact_id c = cid then fold setattr_Contact (dict_exclude_unset cu) c else c)
          (contacts db))"
proof (cases "parse_ContactUpdate body")
  case (Inl e)
  then show ?thesis by (simp add: put_contacts_def)
next
  case (Inr cu)
  show ?thesis
  proof (cases "find (\<lambda>c. contact_id c = cid) (contacts db)")
    case None
    then show ?thesis by (simp add: put_contacts_def Inr update_contact_def)
  next
    case (Some x)
    then show ?thesis
      using update_contact_contacts [OF Some, of cu] by (simp add: put_contacts_def Inr)
  qed
qed

lemma filter_other_rows:
  "(\<And>c. contact_id (g c) = contact_id c) \<Longrightarrow>
   filter (\<lambda>c. contact_id c \<noteq> cid) (map (\<lambda>c. if contact_id c = cid then g c else c) xs) =
   filter (\<lambda>c. contact_id c \<noteq> cid) xs"
  by (induction xs) simp_all

lemma put_contacts_frame:
  "map contact_id (contacts (snd (put_contacts cid body db))) = map contact_id (contacts db)"
  "map owner_id (contacts (snd (put_contacts cid body db))) = map owner_id (contacts db)"
  "map birthday (contacts (snd (put_contacts cid body db))) = map birthday (contacts db)"
  using put_contacts_cases [of cid body db]
  by (auto simp: fold_setattr_Contact)

lemma put_contacts_other_rows:
  "filter (\<lambda>c. contact_id c \<noteq> cid) (contacts (snd (put_contacts cid body db))) =
     filter (\<lambda>c. contact_id c \<noteq> cid) (contacts db)"
proof -
  have "contact_id (fold setattr_Contact (dict_exclude_unset cu) c) = contact_id c" for cu c
    by (simp add: fold_setattr_Contact)
  then show ?thesis
    using put_contacts_cases [of cid body db] by (auto simp: filter_other_rows)
qed

lemma parse_ContactUpdate_unset:
  assumes "parse_ContactUpdate body = Inr cu"
  shows "(cu_first_name cu = None) = (body ''first_name'' = None)"
    and "(cu_last_name cu = None) = (body ''last_name'' = None)"
    and "(cu_email cu = None) = (body ''email'' = None)"
    and "(cu_phone cu = None) = (body ''phone'' = None)"
    and "(cu_additional_info cu = None) = (body ''additional_info'' = None)"
  using parse_ContactUpdate_fields [OF assms] by (simp_all add: optional_str_unset)

lemma put_contacts_unsupplied:
  "body ''first_name'' = None \<Longrightarrow>
     map first_name (contacts (snd (put_contacts cid body db))) = map first_name (contacts db)"
  "body ''last_name'' = None \<Longrightarrow>
     map last_name (contacts (snd (put_contacts cid body db))) = map last_name (contacts db)"
  "body ''email'' = None \<Longrightarrow>
     map email (contacts (snd (put_contacts cid body db))) = map email (contacts db)"
  "body ''phone'' = None \<Longrightarrow>
     map phone (contacts (snd (put_contacts cid body db))) = map phone (contacts db)"
  "body ''additional_info'' = None \<Longrightarrow>
     map additional_info (contacts (snd (put_contacts cid body db))) =
     map additional_info (contacts db)"
  using put_contacts_cases [of cid body db]
  by (auto simp: fold_setattr_Contact overwrite_def parse_ContactUpdate_unset [symmetric])

lemma put_contacts_effect:
  assumes "parse_ContactUpdate body = Inr cu"
    and "\<not> list_all (\<lambda>c. contact_id c \<noteq> cid) (contacts db)"
  shows "contacts (snd (put_contacts cid body db)) =
     map (\<lambda>c. if contact_id c = cid
               then c\<lparr>first_name := overwrite (cu_first_name cu) (first_name c),
                      last_name := overwrite (cu_last_name cu) (last_name c),
                      email := overwrite (cu_email cu) (email c),
                      phone := overwrite (cu_phone cu) (phone c),
                      additional_info := overwrite (cu_additional_info cu) (additional_info c)\<rparr>
               else c) (contacts db)"
proof -
  obtain x where x: "find (\<lambda>c. contact_id c = cid) (contacts db) = Some x"
    using assms(2) find_id_None [of cid "contacts db"] by (cases "find (\<lambda>c. contact_id c = cid) (contacts db)") auto
  show ?thesis
    using update_contact_contacts [OF x, of cu]
    by (simp add: put_contacts_def assms(1) fold_setattr_Contact)
qed

text \<open>
  Claim C6: for every body sent to \<^verbatim>\<open>PUT /contacts/{contact_id}\<close>, no contact changes
  its id or its owner, contacts with another id are untouched, and every column that the
  body does not supply keeps its value in every row. When the body is accepted and the
  contact exists, the stored row is the prior row with exactly the supplied columns
  overwritten by the supplied values.
\<close>

theorem update_overwrites_only_supplied_fields:
  "map contact_id (contacts (snd (put_contacts cid body db))) = map contact_id (contacts db)
   \<and> map owner_id (contacts (snd (put_contacts cid body db))) = map owner_id (contacts db)
   \<and> filter (\<lambda>c. contact_id c \<noteq> cid) (contacts (snd (put_contacts cid body db))) =
       filter (\<lambda>c. contact_id c \<noteq> cid) (contacts db)
   \<and> (body ''first_name'' = None \<longrightarrow>
        map first_name (contacts (snd (put_contacts cid body db))) = map first_name (contacts db))
   \<and> (body ''last_name'' = None \<longrightarrow>
        map last_name (contacts (snd (put_contacts cid body db))) = map last_name (contacts db))
   \<and> (body ''email'' = None \<longrightarrow>
        map email (contacts (snd (put_contacts cid body db))) = map email (contacts db))
   \<and> (body ''phone'' = None \<longrightarrow>
        map phone (contacts (snd (put_contacts cid body db))) = map phone (contacts db))
   \<and> (body ''additional_info'' = None \<longrightarrow>
        map additional_info (contacts (snd (put_contacts cid body db))) =
        map additional_info (contacts db))
   \<and> (parse_ContactUpdate body = Inr cu
        \<and> \<not> list_all (\<lambda>c. contact_id c \<noteq> cid) (contacts db) \<longrightarrow>
        optional_str (body ''first_name'') = Inr (cu_first_name cu)
        \<and> optional_str (body ''last_name'') = Inr (cu_last_name cu)
        \<and> optional_str (body ''email'') = Inr (cu_email cu)
        \<and> optional_str (body ''phone'') = Inr (cu_phone cu)
        \<and> optional_str (body ''additional_info'') = Inr (cu_additional_info cu)
        \<and> contacts (snd (put_contacts cid body db)) =
            map (\<lambda>c. if contact_id c = cid
               then c\<lparr>first_name := overwrite (cu_first_name cu) (first_name c),
                      last_name := overwrite (cu_last_name cu) (last_name c),
                      email := overwrite (cu_email cu) (email c),
                      phone := overwrite (cu_phone cu) (phone c),
                      additional_info := overwrite (cu_additional_info cu) (additional_info c)\<rparr>
               else c) (contacts db))"
  using put_contacts_frame(1,2) [of cid body db] put_contacts_other_rows [of cid body db]
    put_contacts_unsupplied [of body cid db]
    put_contacts_effect [of body cu cid db] parse_ContactUpdate_fields [of body cu]
  by blast

theorem update_overwrites_only_supplied_fields_witness:
  "[''phone'' \<mapsto> PStr ''555'', ''last_name'' \<mapsto> PNone] ''first_name'' = None
   \<and> parse_ContactUpdate [''phone'' \<mapsto> PStr ''555'', ''last_name'' \<mapsto> PNone] =
       Inr \<lparr>cu_first_name = None, cu_last_name = Some None, cu_email = None,
            cu_phone = Some (Some ''555''), cu_additional_info = None\<rparr>
   \<and> \<not> list_all (\<lambda>c. contact_id c \<noteq> 1) (contacts example_with_contact)
   \<and> map first_name (contacts (snd (put_contacts 1
         [''phone'' \<mapsto> PStr ''555'', ''last_name'' \<mapsto> PNone] example_with_contact))) =
       map first_name (contacts example_with_contact)
   \<and> contacts (snd (put_contacts 1
         [''phone'' \<mapsto> PStr ''555'', ''last_name'' \<mapsto> PNone] example_with_contact)) =
       [\<lparr>contact_id = 1, first_name = Some ''John'', last_name = None,
         email = Some ''johndoe@example.com'', phone = Some ''555'',
         birthday = Some (Date 1990 1 1), additional_info = Some ''friend'',
         owner_id = Some 1\<rparr>]"
proof -
  let ?body = "[''phone'' \<mapsto> PStr ''555'', ''last_name'' \<mapsto> PNone]"
  let ?cu = "\<lparr>cu_first_name = None, cu_last_name = Some None, cu_email = None,
            cu_phone = Some (Some ''555''), cu_additional_info = None\<rparr>"
  have unset: "?body ''first_name'' = None"
    by simp
  have parsed: "parse_ContactUpdate ?body = Inr ?cu"
    by (simp add: parse_ContactUpdate_def)
  have present: "\<not> list_all (\<lambda>c. contact_id c \<noteq> 1) (contacts example_with_contact)"
    by (simp add: example_with_contact_value)
  note t = update_overwrites_only_supplied_fields
    [where body = ?body and cu = ?cu and cid = 1 and db = example_with_contact]
  have kept: "map first_name (contacts (snd (put_contacts 1 ?body example_with_contact))) =
       map first_name (contacts example_with_contact)"
    using t unset by blast
  have "contacts (snd (put_contacts 1 ?body example_with_contact)) =
     map (\<lambda>c. if contact_id c = 1
               then c\<lparr>first_name := overwrite (cu_first_name ?cu) (first_name c),
                      last_name := overwrite (cu_last_name ?cu) (last_name c),
                      email := overwrite (cu_email ?cu) (email c),
                      phone := overwrite (cu_phone ?cu) (phone c),
                      additional_info := overwrite (cu_additional_info ?cu) (additional_info c)\<rparr>
               else c) (contacts example_with_contact)"
    using t parsed present by blast
  then have stored: "contacts (snd (put_contacts 1 ?body example_with_contact)) =
       [\<lparr>contact_id = 1, first_name = Some ''John'', last_name = None,
         email = Some ''johndoe@example.com'', phone = Some ''555'',
         birthday = Some (Date 1990 1 1), additional_info = Some ''friend'',
         owner_id = Some 1\<rparr>]"
    by (simp add: example_with_contact_value overwrite_def)
  show ?thesis
    using unset parsed present kept stored by blast
qed

lemma parse_ContactUpdate_ignores_birthday:
  "parse_ContactUpdate (body(''birthday'' \<mapsto> v)) = parse_ContactUpdate body"
  by (simp add: parse_ContactUpdate_def cong: sum.case_cong)

text \<open>
  Claim C10: no request to \<^verbatim>\<open>PUT /contacts/{contact_id}\<close> changes a stored birthday,
  and a \<^verbatim>\<open>birthday\<close> key in the body is ignored altogether: the request does what the
  same request without that key does.
\<close>

theorem update_never_changes_birthday:
  "map birthday (contacts (snd (put_contacts cid body db))) = map birthday (contacts db)
   \<and> put_contacts cid (body(''birthday'' \<mapsto> v)) db = put_contacts cid body db"
  using put_contacts_frame(3) [of cid body db]
  by (simp add: put_contacts_def parse_ContactUpdate_ignores_birthday)

section \<open>Contacts: listing\<close>

lemma those_map_Some:
  "those (map f xs) = Some ys \<Longrightarrow> list_all2 (\<lambda>x y. f x = Some y) xs ys"
  by (induction xs arbitrary: ys) (auto split: option.splits)

lemma validate_Contact_row:
  "validate_Contact (getattr_Contact c) = Some v \<Longrightarrow>
   view_id v = contact_id c \<and> owner_id c = Some (view_owner_id v)
   \<and> first_name c = Some (view_first_name v) \<and> last_name c = Some (view_last_name v)
   \<and> email c = Some (view_email v) \<and> phone c = Some (view_phone v)
   \<and> birthday c = Some (view_birthday v) \<and> additional_info c = Some (view_additional_info v)"
  by (cases "first_name c"; cases "last_name c"; cases "email c"; cases "phone c";
      cases "birthday c"; cases "additional_info c"; cases "owner_id c")
     (auto simp: validate_Contact_def getattr_Contact_def nullable_str_def)

lemma get_contacts_returns_every_row:
  assumes "get_contacts db = Inr views"
  shows "list_all2 (\<lambda>c v. validate_Contact (getattr_Contact c) = Some v) (contacts db) views"
    and "map view_id views = map contact_id (contacts db)"
    and "map (\<lambda>v. Some (view_owner_id v)) views = map owner_id (contacts db)"
proof -
  from assms have "those (map (\<lambda>c. validate_Contact (getattr_Contact c)) (contacts db)) = Some views"
    by (simp add: get_contacts_def split: option.splits)
  then show all: "list_all2 (\<lambda>c v. validate_Contact (getattr_Contact c) = Some v) (contacts db) views"
    by (rule those_map_Some)
  then have "list_all2 (\<lambda>c v. view_id v = contact_id c \<and> Some (view_owner_id v) = owner_id c)
      (contacts db) views"
    by (rule list_all2_mono) (use validate_Contact_row in auto)
  then show "map view_id views = map contact_id (contacts db)"
    and "map (\<lambda>v. Some (view_owner_id v)) views = map owner_id (contacts db)"
    by (induction rule: list_all2_induct) auto
qed

lemma those_map_None: "x \<in> set xs \<Longrightarrow> f x = None \<Longrightarrow> those (map f xs) = None"
  by (induction xs) (auto split: option.splits)

text \<open>One stored row that does not fit \<^verbatim>\<open>ContactSchema\<close> fails the whole listing, and
  a row with a \<^verbatim>\<open>NULL\<close> in any column of the view is such a row.\<close>

lemma get_contacts_unfit_row:
  "c \<in> set (contacts db) \<Longrightarrow> validate_Contact (getattr_Contact c) = None \<Longrightarrow>
   get_contacts db = Inl ResponseValidationError"
  by (simp add: get_contacts_def those_map_None)

lemma validate_Contact_null_column:
  "first_name c = None \<or> last_name c = None \<or> email c = None \<or> phone c = None \<or>
   birthday c = None \<or> additional_info c = None \<or> owner_id c = None \<Longrightarrow>
   validate_Contact (getattr_Contact c) = None"
  by (cases "first_name c"; cases "last_name c"; cases "email c"; cases "phone c";
      cases "birthday c"; cases "additional_info c"; cases "owner_id c")
     (auto simp: validate_Contact_def getattr_Contact_def nullable_str_def)

text \<open>From any storage that holds a contact, \<^verbatim>\<open>PUT /contacts/{contact_id}\<close> with the body
  \<^verbatim>\<open>{"first_name": null}\<close> leads to storage on which the listing fails.\<close>

lemma put_null_then_listing_fails:
  assumes "\<not> list_all (\<lambda>c. contact_id c \<noteq> cid) (contacts db)"
  shows "get_contacts (snd (put_contacts cid [''first_name'' \<mapsto> PNone] db)) =
           Inl ResponseValidationError"
proof -
  let ?cu = "\<lparr>cu_first_name = Some None, cu_last_name = None, cu_email = None,
             cu_phone = None, cu_additional_info = None\<rparr>"
  have parsed: "parse_ContactUpdate [''first_name'' \<mapsto> PNone] = Inr ?cu"
    by (simp add: parse_ContactUpdate_def)
  obtain c where c: "c \<in> set (contacts db)" "contact_id c = cid"
    using assms by (auto simp: list_all_iff)
  have stored: "contacts (snd (put_contacts cid [''first_name'' \<mapsto> PNone] db)) =
      map (\<lambda>c. if contact_id c = cid then c\<lparr>first_name := None\<rparr> else c) (contacts db)"
    using put_contacts_effect [OF parsed assms] by (simp add: overwrite_def)
  have "c\<lparr>first_name := None\<rparr> \<in> set (contacts (snd (put_contacts cid [''first_name'' \<mapsto> PNone] db)))"
    using c by (auto simp: stored)
  moreover have "validate_Contact (getattr_Contact (c\<lparr>first_name := None\<rparr>)) = None"
    by (rule validate_Contact_null_column) simp
  ultimately show ?thesis
    by (rule get_contacts_unfit_row)
qed

lemma example_null_name_value:
  "contacts example_null_name =
     [\<lparr>contact_id = 1, first_name = None, last_name = Some ''Doe'',
       email = Some ''johndoe@example.com'', phone = Some ''123456789'',
       birthday = Some (Date 1990 1 1), additional_info = Some ''friend'',
       owner_id = Some 1\<rparr>]"
proof -
  have "\<not> list_all (\<lambda>c. contact_id c \<noteq> 1) (contacts example_with_contact)"
    by (simp add: example_with_contact_value)
  moreover have "parse_ContactUpdate [''first_name'' \<mapsto> PNone] =
      Inr \<lparr>cu_first_name = Some None, cu_last_name = None, cu_email = None,
           cu_phone = None, cu_additional_info = None\<rparr>"
    by (simp add: parse_ContactUpdate_def)
  ultimately show ?thesis
    unfolding example_null_name_def
    by (simp add: put_contacts_effect example_with_contact_value overwrite_def)
qed

text \<open>
  Claim C9 says that \<^verbatim>\<open>GET /contacts/\<close>, which takes no token, returns every contact
  in storage whatever its owner. When the request succeeds it does, row by row
  (\<open>get_contacts_returns_every_row\<close>), as on storage whose one contact has every column
  set. But the columns of \<^verbatim>\<open>models.Contact\<close> are nullable while \<^verbatim>\<open>ContactSchema\<close>
  requires every field. On storage whose contact was stored without
  \<^verbatim>\<open>additional_info\<close> the listing fails response validation and returns no contact at
  all. \<^verbatim>\<open>update_contact\<close> writes such rows itself: \<^verbatim>\<open>ContactUpdate\<close> accepts \<^verbatim>\<open>null\<close>,
  so \<^verbatim>\<open>PUT /contacts/1\<close> with \<^verbatim>\<open>{"first_name": null}\<close> on the storage with the complete
  contact stores the \<^verbatim>\<open>NULL\<close>, and the listing fails from then on.
\<close>

theorem get_contacts_fails_on_null_column:
  "get_contacts example_with_contact =
     Inr [\<lparr>view_first_name = ''John'', view_last_name = ''Doe'',
           view_email = ''johndoe@example.com'', view_phone = ''123456789'',
           view_birthday = Date 1990 1 1, view_additional_info = ''friend'',
           view_id = 1, view_owner_id = 1\<rparr>]
   \<and> get_contacts example_missing_info = Inl ResponseValidationError
   \<and> status_code (get_contacts example_missing_info) = 500
   \<and> fst (put_contacts 1 [''first_name'' \<mapsto> PNone] example_with_contact) =
       Inl ResponseValidationError
   \<and> contacts example_null_name =
       [\<lparr>contact_id = 1, first_name = None, last_name = Some ''Doe'',
         email = Some ''johndoe@example.com'', phone = Some ''123456789'',
         birthday = Some (Date 1990 1 1), additional_info = Some ''friend'',
         owner_id = Some 1\<rparr>]
   \<and> get_contacts example_null_name = Inl ResponseValidationError
   \<and> status_code (get_contacts example_null_name) = 500"
proof -
  have ok: "get_contacts example_with_contact =
     Inr [\<lparr>view_first_name = ''John'', view_last_name = ''Doe'',
           view_email = ''johndoe@example.com'', view_phone = ''123456789'',
           view_birthday = Date 1990 1 1, view_additional_info = ''friend'',
           view_id = 1, view_owner_id = 1\<rparr>]"
    by (simp add: get_contacts_def example_with_contact_value validate_created_Contact)
  have m: "get_contacts example_missing_info = Inl ResponseValidationError"
    by (simp add: get_contacts_def example_missing_info_def validate_Contact_def
          getattr_Contact_def nullable_str_def)
  have g: "get_contacts example_null_name = Inl ResponseValidationError"
    by (simp add: get_contacts_def example_null_name_value validate_Contact_def
          getattr_Contact_def nullable_str_def)
  have "find (\<lambda>c. contact_id c = 1) (contacts example_with_contact) =
      Some (hd (contacts example_with_contact))"
    by (simp add: example_with_contact_value)
  then have p: "fst (put_contacts 1 [''first_name'' \<mapsto> PNone] example_with_contact) =
       Inl ResponseValidationError"
    by (simp add: put_contacts_def parse_ContactUpdate_def update_contact_def Let_def
          dict_exclude_unset_def setattr_Contact_def example_with_contact_value
          response_model_Contact_def validate_Contact_def getattr_Contact_def nullable_str_def)
  show ?thesis
    using ok m g p by (simp add: example_null_name_value)
qed

end
